theory Spec2Isabelle
  imports Complex_Main "HOL-Library.Word"
begin

section \<open>JavaScript values\<close>

text \<open>
  A JavaScript string is a sequence of UTF-16 code units. The string literals of
  \<^verbatim>\<open>index.js\<close> are ASCII; \<open>str\<close> embeds them.
\<close>

type_synonym jsstring = "16 word list"

definition str :: "string \<Rightarrow> jsstring" where
  "str s = map of_char s"

text \<open>
  A number is an IEEE double: a finite value (both zeros are \<open>Num 0\<close>), an infinity
  or NaN. The handlers never compute with numbers; they only test them for truthiness
  and pass them on.
\<close>

datatype number = Num rat | PlusInfinity | MinusInfinity | NaN

text \<open>
  The values a handler meets: what \<^verbatim>\<open>express.json()\<close> parses (null, booleans,
  numbers, strings, arrays, objects), and \<^verbatim>\<open>undefined\<close>, the value of reading a
  property that is absent. An object is the map of its own properties; the order in
  which JavaScript enumerates them is not part of the model.
\<close>

datatype jsval =
    JUndefined
  | JNull
  | JBool bool
  | JNumber number
  | JString jsstring
  | JArray "jsval list"
  | JObject "jsstring \<Rightarrow> jsval option"

type_synonym fields = "jsstring \<Rightarrow> jsval option"

text \<open>ToBoolean, as \<^verbatim>\<open>!x\<close> and \<^verbatim>\<open>x || y\<close> apply it.\<close>

fun truthy :: "jsval \<Rightarrow> bool" where
  "truthy JUndefined = False"
| "truthy JNull = False"
| "truthy (JBool b) = b"
| "truthy (JNumber n) = (n \<noteq> Num 0 \<and> n \<noteq> NaN)"
| "truthy (JString s) = (s \<noteq> [])"
| "truthy (JArray xs) = True"
| "truthy (JObject m) = True"

text \<open>
  \<^verbatim>\<open>obj.key\<close> on a parsed JSON object (or array): the own property, or
  \<^verbatim>\<open>undefined\<close>. None of the keys the handlers read is inherited from a prototype.
\<close>

definition read_prop :: "fields \<Rightarrow> jsstring \<Rightarrow> jsval" where
  "read_prop obj key = (case obj key of None \<Rightarrow> JUndefined | Some v \<Rightarrow> v)"

text \<open>What a \<^verbatim>\<open>try\<close> block can catch: a TypeError of the language, or a rejection
  by the Firestore client, which carries some detail of its own.\<close>

datatype exn = TypeError | StoreError string

text \<open>
  The character class \<^verbatim>\<open>\s\<close> of a regular expression without the \<^verbatim>\<open>u\<close> flag:
  the WhiteSpace and LineTerminator code units of ECMAScript.
\<close>

definition is_whitespace :: "16 word \<Rightarrow> bool" where
  "is_whitespace c =
     (c \<in> set [0x0009, 0x000A, 0x000B, 0x000C, 0x000D, 0x0020, 0x00A0, 0x1680,
                0x2028, 0x2029, 0x202F, 0x205F, 0x3000, 0xFEFF]
      \<or> (0x2000 \<le> c \<and> c \<le> 0x200A))"

text \<open>
  \<^verbatim>\<open>name.replace(/\s/g, '+')\<close>. Only a string has a \<^verbatim>\<open>replace\<close> method: on a
  number, a boolean, an array or a parsed object the property is \<^verbatim>\<open>undefined\<close> or
  a JSON value, and calling it throws a TypeError.
\<close>

fun replace_whitespace :: "jsval \<Rightarrow> exn + jsstring" where
  "replace_whitespace (JString s) = Inr (map (\<lambda>c. if is_whitespace c then 0x002B else c) s)"
| "replace_whitespace v = Inl TypeError"

section \<open>Responses\<close>

record response =
  status :: nat
  body :: jsval

definition respond :: "nat \<Rightarrow> jsval \<Rightarrow> response" where
  "respond code json = \<lparr>status = code, body = json\<rparr>"

definition error_json :: "string \<Rightarrow> jsval" where
  "error_json msg = JObject [str ''error'' \<mapsto> JString (str msg)]"

definition message_json :: "string \<Rightarrow> jsval" where
  "message_json msg = JObject [str ''message'' \<mapsto> JString (str msg)]"

section \<open>The record store\<close>

text \<open>
  Modelled from the spec: the Record Store, which is the Firestore client of
  \<^verbatim>\<open>firebase-admin\<close> and the remote collection behind it, an external collaborator
  with no code under \<^verbatim>\<open>src/\<close>. The collection is the list of its documents, each
  with its store-assigned id, in the store's iteration order. Every interaction gets a
  reply from the environment: the store fails with some detail, or it carries the
  operation out. A failed operation leaves the collection as it was. The id of a new
  document is the store's choice; \<^verbatim>\<open>add\<close> creates the document only if the id is
  not taken.
\<close>

type_synonym doc_id = jsstring
type_synonym store = "(doc_id \<times> fields) list"

datatype 'a reply = Fails string | Succeeds 'a

definition collection_get :: "unit reply \<Rightarrow> store \<Rightarrow> exn + store" where
  "collection_get reply st =
     (case reply of Fails detail \<Rightarrow> Inl (StoreError detail) | Succeeds u \<Rightarrow> Inr st)"

definition collection_add :: "doc_id reply \<Rightarrow> fields \<Rightarrow> store \<Rightarrow> (exn + doc_id) \<times> store" where
  "collection_add reply docData st =
     (case reply of
        Fails detail \<Rightarrow> (Inl (StoreError detail), st)
      | Succeeds new_id \<Rightarrow>
          if new_id \<in> set (map fst st) then (Inl (StoreError ''ALREADY_EXISTS''), st)
          else (Inr new_id, st @ [(new_id, docData)]))"

definition doc_get :: "unit reply \<Rightarrow> doc_id \<Rightarrow> store \<Rightarrow> exn + fields option" where
  "doc_get reply ident st =
     (case reply of Fails detail \<Rightarrow> Inl (StoreError detail) | Succeeds u \<Rightarrow> Inr (map_of st ident))"

definition doc_delete :: "unit reply \<Rightarrow> doc_id \<Rightarrow> store \<Rightarrow> (exn + unit) \<times> store" where
  "doc_delete reply ident st =
     (case reply of
        Fails detail \<Rightarrow> (Inl (StoreError detail), st)
      | Succeeds u \<Rightarrow> (Inr (), filter (\<lambda>(i, d). i \<noteq> ident) st))"

section \<open>The handlers of index.js\<close>

text \<open>
  Each handler takes the replies of the store to the interactions it may make, the
  request, and the collection; it returns the response passed to \<^verbatim>\<open>res.json\<close> and
  the collection afterwards. An exception thrown inside the \<^verbatim>\<open>try\<close> block is the
  \<open>Inl\<close> branch that the \<^verbatim>\<open>catch\<close> block answers. Console output is not part of
  the result.
\<close>

subsection \<open>GET /api/properties\<close>

text \<open>The object pushed for one document: \<^verbatim>\<open>{ id: doc.id, ...doc.data() }\<close>. The
  spread comes second, so a field of the document overrides the key before it.\<close>

definition listing_object :: "doc_id \<Rightarrow> fields \<Rightarrow> jsval" where
  "listing_object ident data = JObject ([str ''id'' \<mapsto> JString ident] ++ data)"

text \<open>\<^verbatim>\<open>snapshot.forEach(doc => properties.push(...))\<close>\<close>

fun forEach_push :: "store \<Rightarrow> jsval list \<Rightarrow> jsval list" where
  "forEach_push [] properties = properties"
| "forEach_push ((ident, data) # docs) properties =
     forEach_push docs (properties @ [listing_object ident data])"

definition get_properties :: "unit reply \<Rightarrow> store \<Rightarrow> response \<times> store" where
  "get_properties reply st =
     (case collection_get reply st of
        Inl error \<Rightarrow>
          (respond 500 (error_json ''Failed to fetch properties from the database.''), st)
      | Inr snapshot \<Rightarrow> (respond 200 (JArray (forEach_push snapshot [])), st))"

subsection \<open>POST /api/properties\<close>

text \<open>
  A parsed request body is the map of the own properties of \<^verbatim>\<open>req.body\<close>, a JSON
  object or array. The basic validation reads three of them.
\<close>

definition missing_required :: "fields \<Rightarrow> bool" where
  "missing_required newPropertyData =
     (\<not> truthy (read_prop newPropertyData (str ''name''))
      \<or> \<not> truthy (read_prop newPropertyData (str ''price''))
      \<or> \<not> truthy (read_prop newPropertyData (str ''location'')))"

definition placeholder_prefix :: jsstring where
  "placeholder_prefix = str ''https://placehold.co/600x400/cccccc/333?text=''"

text \<open>
  \<^verbatim>\<open>{ ...newPropertyData, image: newPropertyData.image || `...${name.replace(..)}` }\<close>:
  the right operand of \<^verbatim>\<open>||\<close> is evaluated only when the image is falsy.
\<close>

definition build_docData :: "fields \<Rightarrow> exn + fields" where
  "build_docData newPropertyData =
     (if truthy (read_prop newPropertyData (str ''image''))
      then Inr (newPropertyData(str ''image'' \<mapsto> read_prop newPropertyData (str ''image'')))
      else
        (case replace_whitespace (read_prop newPropertyData (str ''name'')) of
           Inl error \<Rightarrow> Inl error
         | Inr text \<Rightarrow>
             Inr (newPropertyData(str ''image'' \<mapsto> JString (placeholder_prefix @ text)))))"

text \<open>
  \<^verbatim>\<open>req.body\<close> is \<^verbatim>\<open>undefined\<close> (here \<open>None\<close>) when \<^verbatim>\<open>express.json()\<close>
  parsed nothing and the Express version in use leaves the property unset, as Express 5
  does; \<^verbatim>\<open>index.js\<close> does not pin the version. Reading \<^verbatim>\<open>.name\<close> of
  \<^verbatim>\<open>undefined\<close> throws a TypeError inside the \<^verbatim>\<open>try\<close> block, which the
  \<^verbatim>\<open>catch\<close> block answers.
\<close>

definition post_properties ::
  "doc_id reply \<Rightarrow> fields option \<Rightarrow> store \<Rightarrow> response \<times> store" where
  "post_properties reply req_body st =
     (case req_body of
        None \<Rightarrow> (respond 500 (error_json ''Failed to add property to the database.''), st)
      | Some newPropertyData \<Rightarrow>
          if missing_required newPropertyData
          then (respond 400 (error_json ''Missing required property fields.''), st)
          else
            (case build_docData newPropertyData of
               Inl error \<Rightarrow>
                 (respond 500 (error_json ''Failed to add property to the database.''), st)
             | Inr docData \<Rightarrow>
                 (case collection_add reply docData st of
                    (Inl error, st') \<Rightarrow>
                      (respond 500 (error_json ''Failed to add property to the database.''), st')
                  | (Inr docRef_id, st') \<Rightarrow>
                      (respond 201 (JObject ([str ''id'' \<mapsto> JString docRef_id] ++ docData)),
                       st'))))"

subsection \<open>DELETE /api/properties/:id\<close>

text \<open>The lookup \<^verbatim>\<open>docRef.get()\<close>, the test of \<^verbatim>\<open>doc.exists\<close>, and the removal
  \<^verbatim>\<open>docRef.delete()\<close>.\<close>

definition delete_property ::
  "unit reply \<Rightarrow> unit reply \<Rightarrow> doc_id \<Rightarrow> store \<Rightarrow> response \<times> store" where
  "delete_property get_reply delete_reply ident st =
     (case doc_get get_reply ident st of
        Inl error \<Rightarrow>
          (respond 500 (error_json ''Failed to delete property from the database.''), st)
      | Inr doc \<Rightarrow>
          if doc = None
          then (respond 404 (error_json ''Property not found.''), st)
          else
            (case doc_delete delete_reply ident st of
               (Inl error, st') \<Rightarrow>
                 (respond 500 (error_json ''Failed to delete property from the database.''), st')
             | (Inr u, st') \<Rightarrow>
                 (respond 200 (message_json ''Property deleted successfully.''), st')))"

section \<open>Observations and the specification's wording\<close>

text \<open>A property of a response body, and a field of a stored document.\<close>

definition body_field :: "response \<Rightarrow> jsstring \<Rightarrow> jsval option" where
  "body_field res key = (case body res of JObject obj \<Rightarrow> obj key | other \<Rightarrow> None)"

definition stored_field :: "store \<Rightarrow> doc_id \<Rightarrow> jsstring \<Rightarrow> jsval option" where
  "stored_field st ident key = (case map_of st ident of None \<Rightarrow> None | Some data \<Rightarrow> data key)"

text \<open>What the objects of a listing response hold under a key, in the order of the
  sequence.\<close>

definition listed_field :: "response \<Rightarrow> jsstring \<Rightarrow> jsval option list" where
  "listed_field res key =
     (case body res of
        JArray objs \<Rightarrow> map (\<lambda>obj. case obj of JObject m \<Rightarrow> m key | other \<Rightarrow> None) objs
      | other \<Rightarrow> [])"

text \<open>The invariant of the data model: every stored document has an \<^verbatim>\<open>image\<close> field.\<close>

definition all_have_image :: "store \<Rightarrow> bool" where
  "all_have_image st = list_all (\<lambda>(ident, data). data (str ''image'') \<noteq> None) st"

text \<open>
  The image of the specification's wording, for comparison with \<open>build_docData\<close>:
  the caller's value if the field is present, otherwise the placeholder URL whose text is
  the name with every space replaced by a plus sign.
\<close>

definition spec_spaces_to_plus :: "jsstring \<Rightarrow> jsstring" where
  "spec_spaces_to_plus name = map (\<lambda>c. if c = 0x0020 then 0x002B else c) name"

definition spec_image :: "fields \<Rightarrow> jsstring \<Rightarrow> jsval" where
  "spec_image input name =
     (case input (str ''image'') of
        Some v \<Rightarrow> v
      | None \<Rightarrow>
          JString (str ''https://placehold.co/600x400/cccccc/333?text='' @ spec_spaces_to_plus name))"

section \<open>Example requests\<close>

text \<open>The two creation bodies of the specification's examples.\<close>

definition lakeview :: fields where
  "lakeview = [str ''name'' \<mapsto> JString (str ''Lakeview Cottage''),
               str ''price'' \<mapsto> JNumber (Num 250000),
               str ''location'' \<mapsto> JString (str ''Tahoe'')]"

definition only_name :: fields where
  "only_name = [str ''name'' \<mapsto> JString (str ''X'')]"

text \<open>A body with an empty image, one whose name holds a tab (code unit 9) and no
  space, one whose name is a number, and two that bring an \<^verbatim>\<open>id\<close> of their own.\<close>

definition blank_image :: fields where
  "blank_image = [str ''name'' \<mapsto> JString (str ''A B''), str ''price'' \<mapsto> JNumber (Num 1),
                  str ''location'' \<mapsto> JString (str ''L''), str ''image'' \<mapsto> JString []]"

definition tab_name :: fields where
  "tab_name = [str ''name'' \<mapsto> JString [0x0041, 0x0009, 0x0042],
               str ''price'' \<mapsto> JNumber (Num 1), str ''location'' \<mapsto> JString (str ''L'')]"

definition number_name :: fields where
  "number_name = [str ''name'' \<mapsto> JNumber (Num 5), str ''price'' \<mapsto> JNumber (Num 1),
                  str ''location'' \<mapsto> JString (str ''L'')]"

definition empty_id :: fields where
  "empty_id = [str ''name'' \<mapsto> JString (str ''X''), str ''price'' \<mapsto> JNumber (Num 1),
               str ''location'' \<mapsto> JString (str ''L''), str ''id'' \<mapsto> JString []]"

definition borrowed_id :: fields where
  "borrowed_id = [str ''name'' \<mapsto> JString (str ''Y''), str ''price'' \<mapsto> JNumber (Num 2),
                  str ''location'' \<mapsto> JString (str ''L''), str ''id'' \<mapsto> JString (str ''b'')]"

text \<open>
  A run through the API from the empty collection: a listing is created and the store
  names it \<^verbatim>\<open>b\<close>; a second one is created whose body carries \<^verbatim>\<open>id: "b"\<close>, and
  the store names it \<^verbatim>\<open>a\<close>; then \<^verbatim>\<open>DELETE /api/properties/b\<close>.
\<close>

definition after_first_create :: store where
  "after_first_create = snd (post_properties (Succeeds (str ''b'')) (Some lakeview) [])"

definition after_second_create :: store where
  "after_second_create =
     snd (post_properties (Succeeds (str ''a'')) (Some borrowed_id) after_first_create)"

definition after_delete :: store where
  "after_delete =
     snd (delete_property (Succeeds ()) (Succeeds ()) (str ''b'') after_second_create)"

section \<open>Auxiliary facts\<close>

lemma unat_of_char: "unat (of_char c :: 16 word) = of_char c"
proof -
  have "(of_char c :: 16 word) = of_nat (of_char c)"
    by (simp add: of_nat_of_char)
  moreover have "(of_char c :: nat) < 2 ^ 16"
    by (rule less_trans [OF nat_of_char_less_256]) simp
  ultimately show ?thesis
    by (simp add: unat_of_nat)
qed

lemma str_inject [simp]: "str s = str t \<longleftrightarrow> s = t"
proof -
  have "inj (of_char :: char \<Rightarrow> 16 word)"
  proof (rule injI)
    fix c d :: char
    assume "(of_char c :: 16 word) = of_char d"
    then have "unat (of_char c :: 16 word) = unat (of_char d :: 16 word)"
      by simp
    then have "(of_char c :: nat) = of_char d"
      by (simp only: unat_of_char)
    then show "c = d"
      using inj_of_char [where ?'a = nat] by (simp add: inj_def)
  qed
  then show ?thesis
    by (simp add: str_def)
qed

lemma str_eq_Nil [simp]: "str s = [] \<longleftrightarrow> s = []"
  by (simp add: str_def)

lemmas example_defs =
  lakeview_def only_name_def blank_image_def tab_name_def number_name_def empty_id_def
  borrowed_id_def after_first_create_def after_second_create_def after_delete_def

lemmas handler_defs =
  post_properties_def missing_required_def build_docData_def placeholder_prefix_def
  get_properties_def delete_property_def collection_get_def collection_add_def doc_get_def
  doc_delete_def respond_def error_json_def message_json_def read_prop_def listing_object_def

subsection \<open>The loop of the list operation\<close>

lemma forEach_push_append:
  "forEach_push docs properties = properties @ map (\<lambda>(ident, data). listing_object ident data) docs"
  by (induction docs arbitrary: properties) auto

lemma listing_object_fields:
  "listing_object ident data =
     JObject (\<lambda>key. case data key of
                       Some v \<Rightarrow> Some v
                     | None \<Rightarrow> if key = str ''id'' then Some (JString ident) else None)"
  by (auto simp: listing_object_def map_add_def fun_eq_iff split: option.splits)

lemma get_properties_store: "snd (get_properties reply st) = st"
  by (simp add: get_properties_def split: sum.splits)

text \<open>
  The list operation on a store that answers the read: status 200, one object per
  document in the store's order, the collection unchanged. In each object a stored
  field wins over the \<^verbatim>\<open>id\<close> key.
\<close>

lemma get_properties_succeeds:
  "get_properties (Succeeds ()) st =
     (\<lparr>status = 200,
       body = JArray (map (\<lambda>(ident, data).
                 JObject (\<lambda>key. case data key of
                                   Some v \<Rightarrow> Some v
                                 | None \<Rightarrow> if key = str ''id'' then Some (JString ident) else None))
               st)\<rparr>,
      st)"
  by (simp add: get_properties_def collection_get_def respond_def forEach_push_append
      listing_object_fields)

lemma listed_field_get_properties:
  "listed_field (fst (get_properties (Succeeds ()) st)) key =
     map (\<lambda>(ident, data). case data key of
                              Some v \<Rightarrow> Some v
                            | None \<Rightarrow> if key = str ''id'' then Some (JString ident) else None) st"
  by (simp add: listed_field_def get_properties_def collection_get_def respond_def
      forEach_push_append listing_object_fields split_def)

subsection \<open>Validation and the document of a creation\<close>

lemma missing_required_iff:
  "missing_required input \<longleftrightarrow>
     (\<exists>key \<in> {str ''name'', str ''price'', str ''location''}.
        input key = None \<or> (\<exists>v. input key = Some v \<and> \<not> truthy v))"
  by (auto simp: missing_required_def read_prop_def split: option.splits)

lemma replace_whitespace_TypeError:
  "(\<forall>s. v \<noteq> JString s) \<Longrightarrow> replace_whitespace v = Inl TypeError"
  by (cases v) auto

lemma build_docData_cases:
  "build_docData input =
     (if truthy (read_prop input (str ''image'')) then Inr input
      else case read_prop input (str ''name'') of
             JString name \<Rightarrow>
               Inr (input(str ''image'' \<mapsto>
                  JString (str ''https://placehold.co/600x400/cccccc/333?text='' @
                           map (\<lambda>c. if is_whitespace c then 0x002B else c) name)))
           | other \<Rightarrow> Inl TypeError)"
  by (auto simp: build_docData_def read_prop_def placeholder_prefix_def fun_eq_iff
      split: option.splits jsval.splits)

lemma build_docData_image:
  "build_docData input = Inr docData \<Longrightarrow> docData (str ''image'') \<noteq> None"
  by (auto simp: build_docData_def split: if_splits sum.splits)

lemma build_docData_succeeds:
  assumes "truthy (read_prop input (str ''image'')) \<or> (\<exists>s. input (str ''name'') = Some (JString s))"
  shows "\<exists>docData. build_docData input = Inr docData"
  using assms
  by (cases "truthy (read_prop input (str ''image''))")
    (auto simp: build_docData_cases read_prop_def)

lemma post_properties_unparsed:
  "post_properties reply None st =
     (\<lparr>status = 500,
       body = JObject [str ''error'' \<mapsto> JString (str ''Failed to add property to the database.'')]\<rparr>,
      st)"
  by (simp add: post_properties_def respond_def error_json_def)

text \<open>
  What the validation does with a parsed body: if one of the three fields is absent or
  falsy, the answer is 400 with the fixed message for every reply of the store, and the
  collection is the one before the request.
\<close>

lemma post_properties_missing_fields:
  assumes "\<exists>key \<in> {str ''name'', str ''price'', str ''location''}.
             newPropertyData key = None \<or> (\<exists>v. newPropertyData key = Some v \<and> \<not> truthy v)"
  shows "post_properties reply (Some newPropertyData) st =
           (\<lparr>status = 400,
             body = JObject [str ''error'' \<mapsto> JString (str ''Missing required property fields.'')]\<rparr>,
            st)"
  using assms
  by (simp add: post_properties_def missing_required_iff respond_def error_json_def)

lemma post_properties_created:
  assumes "\<not> missing_required input" and "build_docData input = Inr docData"
    and "new_id \<notin> set (map fst st)"
  shows "post_properties (Succeeds new_id) (Some input) st =
           (\<lparr>status = 201, body = JObject ([str ''id'' \<mapsto> JString new_id] ++ docData)\<rparr>,
            st @ [(new_id, docData)])"
  using assms by (simp add: post_properties_def collection_add_def respond_def)

lemma post_properties_store:
  "snd (post_properties reply (Some input) st) = st
   \<or> (\<exists>new_id docData. reply = Succeeds new_id \<and> build_docData input = Inr docData
        \<and> \<not> missing_required input \<and> new_id \<notin> set (map fst st)
        \<and> snd (post_properties reply (Some input) st) = st @ [(new_id, docData)])"
  by (auto simp: post_properties_def collection_add_def split: sum.splits reply.splits)

subsection \<open>Deletion\<close>

lemma delete_property_store:
  "snd (delete_property get_reply delete_reply ident st) = st
   \<or> snd (delete_property get_reply delete_reply ident st) = filter (\<lambda>(i, d). i \<noteq> ident) st"
  by (auto simp: delete_property_def doc_get_def doc_delete_def split: sum.splits reply.splits)

text \<open>
  What a successful deletion does to the collection: the document under the id is
  gone, the others stay as they were, and the answer is the confirmation message.
\<close>

lemma delete_property_existing:
  assumes "map_of st ident = Some data"
  shows "delete_property (Succeeds ()) (Succeeds ()) ident st =
           (\<lparr>status = 200,
             body = JObject [str ''message'' \<mapsto> JString (str ''Property deleted successfully.'')]\<rparr>,
            filter (\<lambda>(i, d). i \<noteq> ident) st)"
  using assms
  by (simp add: delete_property_def doc_get_def doc_delete_def respond_def message_json_def)

lemma map_of_after_delete:
  "map_of (filter (\<lambda>(i, d). i \<noteq> ident) st) other = (if other = ident then None else map_of st other)"
  by (induction st) auto

section \<open>Creation: validation\<close>

text \<open>
  C1. The claim asks for status 400 and the body
  \<^verbatim>\<open>{error: "Missing required property fields."}\<close> whenever the body of a creation
  request lacks \<^verbatim>\<open>name\<close>, \<^verbatim>\<open>price\<close> or \<^verbatim>\<open>location\<close>. A request that brings no
  body at all lacks all three, and the handler answers it otherwise: with
  \<^verbatim>\<open>req.body\<close> undefined the validation itself throws, and the response is status 500
  with the message of a failed insert. The empty object and the body \<^verbatim>\<open>{name: "X"}\<close>
  of the specification's example are answered with 400, as the claim says. In all three
  cases nothing is inserted.
\<close>

theorem C1_unparsed_body_answers_500:
  "post_properties (Succeeds (str ''d1'')) None [] =
     (\<lparr>status = 500,
       body = JObject [str ''error'' \<mapsto> JString (str ''Failed to add property to the database.'')]\<rparr>,
      [])
   \<and> post_properties (Succeeds (str ''d1'')) (Some Map.empty) [] =
     (\<lparr>status = 400,
       body = JObject [str ''error'' \<mapsto> JString (str ''Missing required property fields.'')]\<rparr>,
      [])
   \<and> post_properties (Succeeds (str ''d1'')) (Some only_name) [] =
     (\<lparr>status = 400,
       body = JObject [str ''error'' \<mapsto> JString (str ''Missing required property fields.'')]\<rparr>,
      [])"
  by (simp add: handler_defs only_name_def)

section \<open>Creation: the stored document\<close>

text \<open>
  C2, as amended. Take a creation request that passes validation and reaches the
  insert (its image is truthy or its name is a string), and a store that accepts the
  insert under a fresh id. The collection then grows by one document. It agrees with
  the body on every field but \<^verbatim>\<open>image\<close>; its image is the caller's value when that
  value is truthy, and otherwise the placeholder URL followed by the name in which every
  whitespace code unit (the class \<^verbatim>\<open>\s\<close>) is replaced by \<^verbatim>\<open>+\<close> and every other
  code unit is kept.
\<close>

theorem C2_inserted_document:
  assumes "\<not> missing_required input"
    and "truthy (read_prop input (str ''image'')) \<or> (\<exists>s. input (str ''name'') = Some (JString s))"
    and "new_id \<notin> set (map fst st)"
  shows "\<exists>docData.
           snd (post_properties (Succeeds new_id) (Some input) st) = st @ [(new_id, docData)]
           \<and> (\<forall>key. key \<noteq> str ''image'' \<longrightarrow> docData key = input key)
           \<and> (truthy (read_prop input (str ''image'')) \<longrightarrow>
                docData (str ''image'') = input (str ''image''))
           \<and> (\<not> truthy (read_prop input (str ''image'')) \<longrightarrow>
                (\<exists>name replaced.
                   input (str ''name'') = Some (JString name)
                   \<and> docData (str ''image'') =
                       Some (JString (str ''https://placehold.co/600x400/cccccc/333?text='' @ replaced))
                   \<and> length replaced = length name
                   \<and> (\<forall>i<length name.
                         replaced ! i = (if is_whitespace (name ! i) then 0x002B else name ! i))))"
proof -
  from assms(2) obtain docData where built: "build_docData input = Inr docData"
    using build_docData_succeeds by blast
  have "snd (post_properties (Succeeds new_id) (Some input) st) = st @ [(new_id, docData)]"
    using post_properties_created [OF assms(1) built assms(3)] by simp
  moreover have "\<forall>key. key \<noteq> str ''image'' \<longrightarrow> docData key = input key"
    using built by (auto simp: build_docData_cases split: if_splits jsval.splits)
  moreover have "truthy (read_prop input (str ''image'')) \<longrightarrow>
      docData (str ''image'') = input (str ''image'')"
    using built by (auto simp: build_docData_cases)
  moreover have "\<not> truthy (read_prop input (str ''image'')) \<longrightarrow>
      (\<exists>name replaced.
         input (str ''name'') = Some (JString name)
         \<and> docData (str ''image'') =
             Some (JString (str ''https://placehold.co/600x400/cccccc/333?text='' @ replaced))
         \<and> length replaced = length name
         \<and> (\<forall>i<length name.
               replaced ! i = (if is_whitespace (name ! i) then 0x002B else name ! i)))"
  proof
    assume falsy: "\<not> truthy (read_prop input (str ''image''))"
    with assms(2) obtain name where name: "input (str ''name'') = Some (JString name)"
      by auto
    define replaced where "replaced = map (\<lambda>c. if is_whitespace c then 0x002B else c) name"
    have "docData (str ''image'') =
        Some (JString (str ''https://placehold.co/600x400/cccccc/333?text='' @ replaced))"
      using built falsy name by (auto simp: build_docData_cases read_prop_def replaced_def)
    moreover have "length replaced = length name"
      by (simp add: replaced_def)
    moreover have "\<forall>i<length name.
        replaced ! i = (if is_whitespace (name ! i) then 0x002B else name ! i)"
      by (simp add: replaced_def)
    ultimately show "\<exists>name replaced.
         input (str ''name'') = Some (JString name)
         \<and> docData (str ''image'') =
             Some (JString (str ''https://placehold.co/600x400/cccccc/333?text='' @ replaced))
         \<and> length replaced = length name
         \<and> (\<forall>i<length name.
               replaced ! i = (if is_whitespace (name ! i) then 0x002B else name ! i))"
      using name by blast
  qed
  ultimately show ?thesis
    by blast
qed

text \<open>The example of the specification: the Lakeview Cottage, created without an image.\<close>

theorem C2_witness:
  "\<not> missing_required lakeview
   \<and> str ''d1'' \<notin> set (map fst ([] :: store))
   \<and> stored_field (snd (post_properties (Succeeds (str ''d1'')) (Some lakeview) []))
        (str ''d1'') (str ''image'') =
       Some (JString (str ''https://placehold.co/600x400/cccccc/333?text=Lakeview+Cottage''))
   \<and> stored_field (snd (post_properties (Succeeds (str ''d1'')) (Some lakeview) []))
        (str ''d1'') (str ''location'') =
       Some (JString (str ''Tahoe''))"
  using C2_inserted_document [of lakeview "str ''d1''" "[]"]
  by (simp add: handler_defs lakeview_def stored_field_def)
    (simp add: str_def is_whitespace_def)

text \<open>
  The claim as the specification words it fails twice. A body whose image is present
  but empty does not keep the caller's value: the placeholder is stored. A name with a
  tab and no space is not stored unchanged in the placeholder: the tab becomes a plus
  sign.
\<close>

theorem C2_counterexample:
  "blank_image (str ''image'') = Some (JString [])
   \<and> spec_image blank_image (str ''A B'') = JString []
   \<and> stored_field (snd (post_properties (Succeeds (str ''d1'')) (Some blank_image) []))
        (str ''d1'') (str ''image'') =
       Some (JString (str ''https://placehold.co/600x400/cccccc/333?text=A+B''))
   \<and> stored_field (snd (post_properties (Succeeds (str ''d1'')) (Some blank_image) []))
        (str ''d1'') (str ''image'') \<noteq>
       Some (spec_image blank_image (str ''A B''))
   \<and> spec_image tab_name [0x0041, 0x0009, 0x0042] =
       JString (str ''https://placehold.co/600x400/cccccc/333?text='' @ [0x0041, 0x0009, 0x0042])
   \<and> stored_field (snd (post_properties (Succeeds (str ''d1'')) (Some tab_name) []))
        (str ''d1'') (str ''image'') =
       Some (JString (str ''https://placehold.co/600x400/cccccc/333?text=A+B''))
   \<and> stored_field (snd (post_properties (Succeeds (str ''d1'')) (Some tab_name) []))
        (str ''d1'') (str ''image'') \<noteq>
       Some (spec_image tab_name [0x0041, 0x0009, 0x0042])"
  by (simp add: handler_defs blank_image_def tab_name_def stored_field_def spec_image_def
      spec_spaces_to_plus_def)
    (simp add: str_def is_whitespace_def)

section \<open>Creation: the response\<close>

text \<open>
  C3, as amended. Take a creation request that passes validation and reaches the
  insert (its image is truthy or its name is a string), and a store that accepts the
  insert under a fresh, non-empty id. The response has status 201 and its object holds
  every submitted field other than \<^verbatim>\<open>id\<close> and \<^verbatim>\<open>image\<close> with its submitted value;
  the image is the submitted one when that is truthy and the placeholder built from the
  name otherwise; and when the body brings no \<^verbatim>\<open>id\<close> of its own, the \<^verbatim>\<open>id\<close> of
  the object is the store-assigned one.
\<close>

theorem C3_created_response:
  assumes "\<not> missing_required input"
    and "truthy (read_prop input (str ''image'')) \<or> (\<exists>s. input (str ''name'') = Some (JString s))"
    and "new_id \<notin> set (map fst st)"
    and "new_id \<noteq> []"
  shows "status (fst (post_properties (Succeeds new_id) (Some input) st)) = 201
         \<and> (\<exists>obj. body (fst (post_properties (Succeeds new_id) (Some input) st)) = JObject obj
               \<and> (input (str ''id'') = None \<longrightarrow>
                     obj (str ''id'') = Some (JString new_id) \<and> new_id \<noteq> [])
               \<and> (\<forall>key. key \<noteq> str ''id'' \<and> key \<noteq> str ''image'' \<longrightarrow> obj key = input key)
               \<and> (truthy (read_prop input (str ''image'')) \<longrightarrow>
                     obj (str ''image'') = input (str ''image''))
               \<and> (\<not> truthy (read_prop input (str ''image'')) \<longrightarrow>
                     (\<exists>name. input (str ''name'') = Some (JString name)
                        \<and> obj (str ''image'') =
                            Some (JString (str ''https://placehold.co/600x400/cccccc/333?text='' @
                                   map (\<lambda>c. if is_whitespace c then 0x002B else c) name)))))"
proof -
  from assms(2) obtain docData where built: "build_docData input = Inr docData"
    using build_docData_succeeds by blast
  have res: "post_properties (Succeeds new_id) (Some input) st =
      (\<lparr>status = 201, body = JObject ([str ''id'' \<mapsto> JString new_id] ++ docData)\<rparr>,
       st @ [(new_id, docData)])"
    using assms(1) built assms(3) by (rule post_properties_created)
  have image: "docData (str ''image'') \<noteq> None"
    using built by (rule build_docData_image)
  have other: "\<forall>key. key \<noteq> str ''image'' \<longrightarrow> docData key = input key"
    using built by (auto simp: build_docData_cases split: if_splits jsval.splits)
  have "([str ''id'' \<mapsto> JString new_id] ++ docData) key =
          (case docData key of Some v \<Rightarrow> Some v
           | None \<Rightarrow> if key = str ''id'' then Some (JString new_id) else None)" for key
    by (simp add: map_add_def split: option.splits)
  then show ?thesis
    using res image other built assms(4)
    by (auto simp: build_docData_cases read_prop_def split: if_splits jsval.splits option.splits)
qed

theorem C3_witness:
  "\<not> missing_required lakeview
   \<and> str ''d1'' \<notin> set (map fst ([] :: store))
   \<and> status (fst (post_properties (Succeeds (str ''d1'')) (Some lakeview) [])) = 201
   \<and> body_field (fst (post_properties (Succeeds (str ''d1'')) (Some lakeview) [])) (str ''id'') =
       Some (JString (str ''d1''))
   \<and> body_field (fst (post_properties (Succeeds (str ''d1'')) (Some lakeview) [])) (str ''image'') =
       Some (JString (str ''https://placehold.co/600x400/cccccc/333?text=Lakeview+Cottage''))
   \<and> body_field (fst (post_properties (Succeeds (str ''d1'')) (Some lakeview) [])) (str ''price'') =
       Some (JNumber (Num 250000))"
  using C3_created_response [of lakeview "str ''d1''" "[]"]
  by (simp add: handler_defs lakeview_def body_field_def)
    (simp add: str_def is_whitespace_def)

text \<open>
  The claim as the specification words it fails twice. A body that brings
  \<^verbatim>\<open>id: ""\<close> is answered with 201 and an object whose \<^verbatim>\<open>id\<close> is that empty string,
  not the id \<^verbatim>\<open>d1\<close> the store assigned. A body that submits an empty image is answered
  with the placeholder, not with the submitted field.
\<close>

theorem C3_counterexample:
  "status (fst (post_properties (Succeeds (str ''d1'')) (Some empty_id) [])) = 201
   \<and> body_field (fst (post_properties (Succeeds (str ''d1'')) (Some empty_id) [])) (str ''id'') =
       Some (JString [])
   \<and> body_field (fst (post_properties (Succeeds (str ''d1'')) (Some empty_id) [])) (str ''id'') \<noteq>
       Some (JString (str ''d1''))
   \<and> status (fst (post_properties (Succeeds (str ''d1'')) (Some blank_image) [])) = 201
   \<and> blank_image (str ''image'') = Some (JString [])
   \<and> body_field (fst (post_properties (Succeeds (str ''d1'')) (Some blank_image) [])) (str ''image'') =
       Some (JString (str ''https://placehold.co/600x400/cccccc/333?text=A+B''))
   \<and> body_field (fst (post_properties (Succeeds (str ''d1'')) (Some blank_image) [])) (str ''image'') \<noteq>
       blank_image (str ''image'')"
  by (simp add: handler_defs empty_id_def blank_image_def body_field_def)
    (simp add: str_def is_whitespace_def)

section \<open>Deletion of an unknown id\<close>

text \<open>
  C4. When the store answers the lookup and holds no document under the requested id,
  the delete operation responds with status 404 and the body
  \<^verbatim>\<open>{error: "Property not found."}\<close>, and the collection is unchanged; the reply the
  store would give to a removal plays no part.
\<close>

theorem C4_delete_unknown_id:
  assumes "map_of st ident = None"
  shows "delete_property (Succeeds ()) delete_reply ident st =
           (\<lparr>status = 404,
             body = JObject [str ''error'' \<mapsto> JString (str ''Property not found.'')]\<rparr>,
            st)"
  using assms
  by (simp add: delete_property_def doc_get_def respond_def error_json_def)

text \<open>The example of the specification: \<^verbatim>\<open>DELETE /api/properties/unknown-id\<close>.\<close>

theorem C4_witness:
  "map_of [(str ''d1'', lakeview)] (str ''unknown-id'') = None
   \<and> delete_property (Succeeds ()) (Succeeds ()) (str ''unknown-id'') [(str ''d1'', lakeview)] =
       (\<lparr>status = 404,
         body = JObject [str ''error'' \<mapsto> JString (str ''Property not found.'')]\<rparr>,
        [(str ''d1'', lakeview)])"
  using C4_delete_unknown_id [of "[(str ''d1'', lakeview)]" "str ''unknown-id''" "Succeeds ()"]
  by simp

section \<open>Deletion of an existing id\<close>

text \<open>
  C5. The claim asks that, after an existing id is deleted, a listing no longer
  includes that id. The run below shows the handlers doing otherwise. The store holds
  document \<^verbatim>\<open>b\<close> and document \<^verbatim>\<open>a\<close>, the second created from a body with
  \<^verbatim>\<open>id: "b"\<close>. Deleting \<^verbatim>\<open>b\<close> answers 200 with the confirmation message and leaves
  only document \<^verbatim>\<open>a\<close> in the collection, and the listing that follows still reports
  the id \<^verbatim>\<open>b\<close>: the object of document \<^verbatim>\<open>a\<close> carries the field of its body in place
  of its store-assigned id.
\<close>

theorem C5_deleted_id_still_listed:
  "map fst after_first_create = [str ''b'']
   \<and> status (fst (post_properties (Succeeds (str ''a'')) (Some borrowed_id) after_first_create)) = 201
   \<and> map fst after_second_create = [str ''b'', str ''a'']
   \<and> delete_property (Succeeds ()) (Succeeds ()) (str ''b'') after_second_create =
       (\<lparr>status = 200,
         body = JObject [str ''message'' \<mapsto> JString (str ''Property deleted successfully.'')]\<rparr>,
        after_delete)
   \<and> map fst after_delete = [str ''a'']
   \<and> listed_field (fst (get_properties (Succeeds ()) after_delete)) (str ''id'') =
       [Some (JString (str ''b''))]"
  by (simp add: handler_defs example_defs listed_field_def map_add_def)

section \<open>Listing\<close>

text \<open>
  C6. The claim asks that the object listed for each document combine the
  store-assigned \<^verbatim>\<open>id\<close> with the document's stored fields. After the two creations
  of the run the collection holds document \<^verbatim>\<open>b\<close> and document \<^verbatim>\<open>a\<close>. The
  listing answers 200 with two objects, the second with the name of document \<^verbatim>\<open>a\<close>,
  but both report the id \<^verbatim>\<open>b\<close>: the store-assigned id \<^verbatim>\<open>a\<close> is in no object of
  the listing, because the \<^verbatim>\<open>id\<close> field that document \<^verbatim>\<open>a\<close> stores takes its
  place.
\<close>

theorem C6_store_id_missing_from_listing:
  "map fst after_second_create = [str ''b'', str ''a'']
   \<and> stored_field after_second_create (str ''a'') (str ''name'') = Some (JString (str ''Y''))
   \<and> status (fst (get_properties (Succeeds ()) after_second_create)) = 200
   \<and> listed_field (fst (get_properties (Succeeds ()) after_second_create)) (str ''name'') =
       [Some (JString (str ''Lakeview Cottage'')), Some (JString (str ''Y''))]
   \<and> listed_field (fst (get_properties (Succeeds ()) after_second_create)) (str ''id'') =
       [Some (JString (str ''b'')), Some (JString (str ''b''))]
   \<and> Some (JString (str ''a'')) \<notin>
       set (listed_field (fst (get_properties (Succeeds ()) after_second_create)) (str ''id''))"
  by (simp add: handler_defs example_defs stored_field_def listed_field_def map_add_def)

section \<open>Store failures\<close>

text \<open>
  C7. Whenever the store interaction of an operation fails (the read of a listing, the
  insert of a validated creation, the lookup of a deletion, or the removal of a
  document that was found), whatever the error, the response is status 500 with the
  fixed message of that operation, in which the error does not appear, and the
  collection is the one before the request.
\<close>

theorem C7_store_failure:
  "(collection_get list_reply st = Inl e1 \<longrightarrow>
      get_properties list_reply st =
        (\<lparr>status = 500,
          body = JObject [str ''error'' \<mapsto>
                   JString (str ''Failed to fetch properties from the database.'')]\<rparr>,
         st))
   \<and> (\<not> missing_required input \<and> build_docData input = Inr docData
        \<and> fst (collection_add add_reply docData st) = Inl e2 \<longrightarrow>
      post_properties add_reply (Some input) st =
        (\<lparr>status = 500,
          body = JObject [str ''error'' \<mapsto>
                   JString (str ''Failed to add property to the database.'')]\<rparr>,
         st))
   \<and> (doc_get get_reply ident st = Inl e3 \<longrightarrow>
      delete_property get_reply delete_reply ident st =
        (\<lparr>status = 500,
          body = JObject [str ''error'' \<mapsto>
                   JString (str ''Failed to delete property from the database.'')]\<rparr>,
         st))
   \<and> (doc_get get_reply' ident' st = Inr (Some data)
        \<and> fst (doc_delete delete_reply' ident' st) = Inl e4 \<longrightarrow>
      delete_property get_reply' delete_reply' ident' st =
        (\<lparr>status = 500,
          body = JObject [str ''error'' \<mapsto>
                   JString (str ''Failed to delete property from the database.'')]\<rparr>,
         st))"
proof (intro conjI impI)
  assume "collection_get list_reply st = Inl e1"
  then show "get_properties list_reply st =
        (\<lparr>status = 500,
          body = JObject [str ''error'' \<mapsto>
                   JString (str ''Failed to fetch properties from the database.'')]\<rparr>,
         st)"
    by (simp add: get_properties_def respond_def error_json_def)
next
  assume a: "\<not> missing_required input \<and> build_docData input = Inr docData
        \<and> fst (collection_add add_reply docData st) = Inl e2"
  then have "collection_add add_reply docData st = (Inl e2, st)"
    by (auto simp: collection_add_def split: reply.splits if_splits)
  with a show "post_properties add_reply (Some input) st =
        (\<lparr>status = 500,
          body = JObject [str ''error'' \<mapsto>
                   JString (str ''Failed to add property to the database.'')]\<rparr>,
         st)"
    by (simp add: post_properties_def respond_def error_json_def)
next
  assume "doc_get get_reply ident st = Inl e3"
  then show "delete_property get_reply delete_reply ident st =
        (\<lparr>status = 500,
          body = JObject [str ''error'' \<mapsto>
                   JString (str ''Failed to delete property from the database.'')]\<rparr>,
         st)"
    by (simp add: delete_property_def respond_def error_json_def)
next
  assume a: "doc_get get_reply' ident' st = Inr (Some data)
        \<and> fst (doc_delete delete_reply' ident' st) = Inl e4"
  then have "doc_delete delete_reply' ident' st = (Inl e4, st)"
    by (auto simp: doc_delete_def split: reply.splits)
  with a show "delete_property get_reply' delete_reply' ident' st =
        (\<lparr>status = 500,
          body = JObject [str ''error'' \<mapsto>
                   JString (str ''Failed to delete property from the database.'')]\<rparr>,
         st)"
    by (simp add: delete_property_def respond_def error_json_def)
qed

text \<open>Four failures on the collection that holds the one document \<^verbatim>\<open>b\<close>.\<close>

theorem C7_witness:
  "get_properties (Fails ''UNAVAILABLE'') after_first_create =
     (\<lparr>status = 500,
       body = JObject [str ''error'' \<mapsto>
                JString (str ''Failed to fetch properties from the database.'')]\<rparr>,
      after_first_create)
   \<and> post_properties (Fails ''DEADLINE_EXCEEDED'') (Some lakeview) after_first_create =
     (\<lparr>status = 500,
       body = JObject [str ''error'' \<mapsto>
                JString (str ''Failed to add property to the database.'')]\<rparr>,
      after_first_create)
   \<and> delete_property (Fails ''UNAVAILABLE'') (Succeeds ()) (str ''b'') after_first_create =
     (\<lparr>status = 500,
       body = JObject [str ''error'' \<mapsto>
                JString (str ''Failed to delete property from the database.'')]\<rparr>,
      after_first_create)
   \<and> delete_property (Succeeds ()) (Fails ''ABORTED'') (str ''b'') after_first_create =
     (\<lparr>status = 500,
       body = JObject [str ''error'' \<mapsto>
                JString (str ''Failed to delete property from the database.'')]\<rparr>,
      after_first_create)"
  using C7_store_failure
    [where list_reply = "Fails ''UNAVAILABLE''" and st = after_first_create
       and ?e1.0 = "StoreError ''UNAVAILABLE''"
       and input = lakeview and docData = "projr (build_docData lakeview)"
       and add_reply = "Fails ''DEADLINE_EXCEEDED''"
       and ?e2.0 = "StoreError ''DEADLINE_EXCEEDED''"
       and get_reply = "Fails ''UNAVAILABLE''" and ident = "str ''b''"
       and ?e3.0 = "StoreError ''UNAVAILABLE''" and delete_reply = "Succeeds ()"
       and get_reply' = "Succeeds ()" and ident' = "str ''b''"
       and data = "the (map_of after_first_create (str ''b''))"
       and delete_reply' = "Fails ''ABORTED''" and ?e4.0 = "StoreError ''ABORTED''"]
  by (simp add: handler_defs example_defs)

section \<open>The image invariant\<close>

text \<open>
  C8. If every document of the collection has an \<^verbatim>\<open>image\<close> field, then so has every
  document after a listing, a creation (with any request body, parsed or not) or a
  deletion, whatever the store replies.
  Listing and deletion add no document. A document that a creation adds has as image
  the caller's truthy value or a placeholder URL. And every object of a listing of such
  a collection has an \<^verbatim>\<open>image\<close>.
\<close>

theorem C8_image_invariant:
  assumes "all_have_image st"
  shows "all_have_image (snd (get_properties list_reply st))
         \<and> all_have_image (snd (post_properties add_reply req_body st))
         \<and> all_have_image (snd (delete_property get_reply delete_reply ident st))
         \<and> set (snd (get_properties list_reply st)) \<subseteq> set st
         \<and> set (snd (delete_property get_reply delete_reply ident st)) \<subseteq> set st
         \<and> (\<forall>(new_id, docData) \<in> set (snd (post_properties add_reply (Some input) st)) - set st.
               (truthy (read_prop input (str ''image''))
                  \<and> docData (str ''image'') = input (str ''image''))
               \<or> (\<exists>name. docData (str ''image'') =
                     Some (JString (str ''https://placehold.co/600x400/cccccc/333?text='' @ name))))
         \<and> length (listed_field (fst (get_properties (Succeeds ()) st)) (str ''image'')) = length st
         \<and> None \<notin> set (listed_field (fst (get_properties (Succeeds ()) st)) (str ''image''))"
proof (intro conjI)
  show "all_have_image (snd (get_properties list_reply st))"
    using assms by (simp add: get_properties_store)
  show "all_have_image (snd (post_properties add_reply req_body st))"
  proof (cases req_body)
    case None
    then show ?thesis
      using assms by (simp add: post_properties_unparsed)
  next
    case (Some newPropertyData)
    then show ?thesis
      using assms post_properties_store [of add_reply newPropertyData st]
      by (auto simp: all_have_image_def dest: build_docData_image)
  qed
  show "all_have_image (snd (delete_property get_reply delete_reply ident st))"
    using assms delete_property_store [of get_reply delete_reply ident st]
    by (auto simp: all_have_image_def list_all_iff)
  show "set (snd (get_properties list_reply st)) \<subseteq> set st"
    by (simp add: get_properties_store)
  show "set (snd (delete_property get_reply delete_reply ident st)) \<subseteq> set st"
    using delete_property_store [of get_reply delete_reply ident st] by auto
  show "\<forall>(new_id, docData) \<in> set (snd (post_properties add_reply (Some input) st)) - set st.
               (truthy (read_prop input (str ''image''))
                  \<and> docData (str ''image'') = input (str ''image''))
               \<or> (\<exists>name. docData (str ''image'') =
                     Some (JString (str ''https://placehold.co/600x400/cccccc/333?text='' @ name)))"
    using post_properties_store [of add_reply input st]
    by (auto simp: build_docData_cases split: if_splits jsval.splits)
  show "length (listed_field (fst (get_properties (Succeeds ()) st)) (str ''image'')) = length st"
    by (simp add: listed_field_get_properties)
  show "None \<notin> set (listed_field (fst (get_properties (Succeeds ()) st)) (str ''image''))"
    using assms
    by (auto simp: listed_field_get_properties all_have_image_def list_all_iff
        split: option.splits)
qed

theorem C8_witness:
  "all_have_image after_first_create
   \<and> all_have_image (snd (post_properties (Succeeds (str ''a'')) (Some borrowed_id) after_first_create))
   \<and> all_have_image (snd (delete_property (Succeeds ()) (Succeeds ()) (str ''b'') after_first_create))
   \<and> listed_field (fst (get_properties (Succeeds ()) after_first_create)) (str ''image'') =
       [Some (JString (str ''https://placehold.co/600x400/cccccc/333?text=Lakeview+Cottage''))]"
  using C8_image_invariant
    [where st = after_first_create and list_reply = "Succeeds ()"
       and add_reply = "Succeeds (str ''a'')" and req_body = "Some borrowed_id"
       and input = borrowed_id and get_reply = "Succeeds ()" and delete_reply = "Succeeds ()"
       and ident = "str ''b''"]
  by (simp add: handler_defs example_defs all_have_image_def listed_field_def map_add_def)
    (simp add: str_def is_whitespace_def)

section \<open>A caller-supplied id\<close>

text \<open>
  C9. If the body of a creation has a field \<^verbatim>\<open>id\<close> and the creation is answered with
  201, then the \<^verbatim>\<open>id\<close> of the response object is the caller's value, the document
  stored under the store-assigned id holds that value as its \<^verbatim>\<open>id\<close> field, and the
  next listing is the former listing followed by one object whose \<^verbatim>\<open>id\<close> is the
  caller's value.
\<close>

theorem C9_caller_id_reported:
  assumes "input (str ''id'') = Some v"
    and "post_properties reply (Some input) st = (res, st')"
    and "status res = 201"
  shows "\<exists>new_id. reply = Succeeds new_id
           \<and> body_field res (str ''id'') = Some v
           \<and> map fst st' = map fst st @ [new_id]
           \<and> stored_field st' new_id (str ''id'') = Some v
           \<and> listed_field (fst (get_properties (Succeeds ()) st')) (str ''id'') =
               listed_field (fst (get_properties (Succeeds ()) st)) (str ''id'') @ [Some v]"
proof -
  from assms(2,3) obtain new_id docData where
    reply: "reply = Succeeds new_id" and built: "build_docData input = Inr docData"
    and fresh: "new_id \<notin> set (map fst st)" and valid: "\<not> missing_required input"
    by (auto simp: post_properties_def collection_add_def respond_def
        split: if_splits sum.splits reply.splits)
  have id: "docData (str ''id'') = Some v"
    using built assms(1) by (auto simp: build_docData_cases split: if_splits jsval.splits)
  have "post_properties reply (Some input) st =
      (\<lparr>status = 201, body = JObject ([str ''id'' \<mapsto> JString new_id] ++ docData)\<rparr>,
       st @ [(new_id, docData)])"
    unfolding reply using valid built fresh by (rule post_properties_created)
  with assms(2) have
    res: "res = \<lparr>status = 201, body = JObject ([str ''id'' \<mapsto> JString new_id] ++ docData)\<rparr>"
    and st': "st' = st @ [(new_id, docData)]"
    by simp_all
  have "map_of st new_id = None"
    using fresh by (simp add: map_of_eq_None_iff)
  then have "stored_field st' new_id (str ''id'') = Some v"
    by (simp add: st' stored_field_def map_add_def id)
  then show ?thesis
    using reply id by (simp add: res st' body_field_def listed_field_get_properties)
qed

text \<open>The second creation of the run: the store assigns \<^verbatim>\<open>a\<close>, the caller said
  \<^verbatim>\<open>b\<close>, and both objects of the next listing report \<^verbatim>\<open>b\<close>.\<close>

theorem C9_witness:
  "borrowed_id (str ''id'') = Some (JString (str ''b''))
   \<and> status (fst (post_properties (Succeeds (str ''a'')) (Some borrowed_id) after_first_create)) = 201
   \<and> body_field (fst (post_properties (Succeeds (str ''a'')) (Some borrowed_id) after_first_create))
        (str ''id'') = Some (JString (str ''b''))
   \<and> stored_field after_second_create (str ''a'') (str ''id'') = Some (JString (str ''b''))
   \<and> listed_field (fst (get_properties (Succeeds ()) after_second_create)) (str ''id'') =
       [Some (JString (str ''b'')), Some (JString (str ''b''))]"
  using C9_caller_id_reported
    [of borrowed_id "JString (str ''b'')" "Succeeds (str ''a'')" after_first_create
       "fst (post_properties (Succeeds (str ''a'')) (Some borrowed_id) after_first_create)"
       after_second_create]
  by (simp add: handler_defs example_defs body_field_def stored_field_def listed_field_def
      map_add_def)

section \<open>A name that is not a string\<close>

text \<open>
  C10. If the name of a creation body is truthy and not a string, its price and
  location are truthy (validation passes) and its image is absent or falsy, then
  building the placeholder throws a TypeError, and the response is status 500 with the
  message of a failed insert, whatever the store would have replied; nothing is
  inserted.
\<close>

theorem C10_non_string_name:
  assumes "truthy (read_prop input (str ''name''))"
    and "\<forall>s. read_prop input (str ''name'') \<noteq> JString s"
    and "truthy (read_prop input (str ''price''))"
    and "truthy (read_prop input (str ''location''))"
    and "\<not> truthy (read_prop input (str ''image''))"
  shows "build_docData input = Inl TypeError
         \<and> post_properties reply (Some input) st =
             (\<lparr>status = 500,
               body = JObject [str ''error'' \<mapsto>
                        JString (str ''Failed to add property to the database.'')]\<rparr>,
              st)"
  using assms
  by (simp add: post_properties_def missing_required_def build_docData_def
      replace_whitespace_TypeError respond_def error_json_def)

theorem C10_witness:
  "truthy (read_prop number_name (str ''name''))
   \<and> \<not> truthy (read_prop number_name (str ''image''))
   \<and> build_docData number_name = Inl TypeError
   \<and> post_properties (Succeeds (str ''d1'')) (Some number_name) [] =
       (\<lparr>status = 500,
         body = JObject [str ''error'' \<mapsto>
                  JString (str ''Failed to add property to the database.'')]\<rparr>,
        [])"
  using C10_non_string_name [of number_name "Succeeds (str ''d1'')" "[]"]
  by (simp add: read_prop_def number_name_def)

end
